theory Spec2Isabelle
  imports Complex_Main
begin

section \<open>Data model (types.ts)\<close>

text \<open>
  A JavaScript \<open>number\<close> is idealised as a real: every input is finite and no rounding
  is applied, which is the reading under which the specification states its numeric
  identities. Field names follow \<open>types.ts\<close>; the two \<open>id\<close> fields and the second
  \<open>amount\<close> field carry a prefix because record fields share one name space.
\<close>

record Investment =
  inv_id :: string
  name :: string
  amount :: real
  annualYield :: real

record AdditionalIncome =
  extra_id :: string
  description :: string
  extra_amount :: real
  date :: string

record PortfolioSummary =
  totalAmount :: real
  weightedAverageYield :: real
  monthlyIncome :: real

section \<open>Aggregator (App.tsx, \<open>summary\<close>)\<close>

text \<open>
  \<^verbatim>\<open>
  const totalAmount = data.investments.reduce((sum, inv) => sum + inv.amount, 0);
  const weightedSum = data.investments.reduce((sum, inv) => sum + (inv.amount * inv.annualYield), 0);
  const weightedAverageYield = totalAmount > 0 ? weightedSum / totalAmount : 0;
  const monthlyIncome = (totalAmount * (weightedAverageYield / 100)) / 12;
  return { totalAmount, weightedAverageYield, monthlyIncome };
  \<close>
  \<open>reduce\<close> with an initial value is a left fold.
\<close>

definition summary :: "Investment list \<Rightarrow> PortfolioSummary" where
  "summary investments =
     (let total = foldl (\<lambda>sum inv. sum + amount inv) 0 investments;
          weightedSum = foldl (\<lambda>sum inv. sum + amount inv * annualYield inv) 0 investments;
          avgYield = (if total > 0 then weightedSum / total else 0);
          monthly = (total * (avgYield / 100)) / 12
      in \<lparr> totalAmount = total, weightedAverageYield = avgYield, monthlyIncome = monthly \<rparr>)"

section \<open>Calendar dates as the platform's \<open>Date\<close> exposes them\<close>

text \<open>
  The projection reads a \<open>Date\<close> only through its local calendar fields, so a date is
  the triple of \<open>getFullYear()\<close>, \<open>getMonth()\<close> (0 for January to 11 for December) and
  \<open>getDate()\<close> (the day of the month, from 1).
\<close>

record LocalDate =
  getFullYear :: int
  getMonth :: nat
  getDate :: nat

definition isLeapYear :: "int \<Rightarrow> bool" where
  "isLeapYear y = (y mod 4 = 0 \<and> (y mod 100 \<noteq> 0 \<or> y mod 400 = 0))"

text \<open>
  \<^verbatim>\<open>new Date(year, month + 1, 0).getDate()\<close>: day 0 of the following month is the
  last day of month \<open>month\<close>, so the expression is the length of that month.
\<close>

definition daysInMonth :: "int \<Rightarrow> nat \<Rightarrow> nat" where
  "daysInMonth y m =
     (if m = 1 then (if isLeapYear y then 29 else 28)
      else if m = 3 \<or> m = 5 \<or> m = 8 \<or> m = 10 then 30
      else 31)"

definition firstOfNextMonth :: "LocalDate \<Rightarrow> LocalDate" where
  "firstOfNextMonth d =
     (if getMonth d \<ge> 11
      then \<lparr> getFullYear = getFullYear d + 1, getMonth = 0, getDate = 1 \<rparr>
      else \<lparr> getFullYear = getFullYear d, getMonth = getMonth d + 1, getDate = 1 \<rparr>)"

definition lastOfPreviousMonth :: "LocalDate \<Rightarrow> LocalDate" where
  "lastOfPreviousMonth d =
     (if getMonth d = 0
      then \<lparr> getFullYear = getFullYear d - 1, getMonth = 11, getDate = 31 \<rparr>
      else \<lparr> getFullYear = getFullYear d, getMonth = getMonth d - 1,
             getDate = daysInMonth (getFullYear d) (getMonth d - 1) \<rparr>)"

text \<open>
  \<open>date.setDate(n)\<close> sets the day of the month within the date's own month; a value
  past the end of the month carries into the following months, and 0 is the last day
  of the previous month. The projection only passes values of at least 2.
\<close>

function setDate :: "LocalDate \<Rightarrow> nat \<Rightarrow> LocalDate" where
  "setDate d n =
     (if n = 0 then lastOfPreviousMonth d
      else if n \<le> daysInMonth (getFullYear d) (getMonth d) then d\<lparr> getDate := n \<rparr>
      else setDate (firstOfNextMonth d) (n - daysInMonth (getFullYear d) (getMonth d)))"
  by pat_completeness auto
termination
  by (relation "measure (\<lambda>(d, n). n)") (auto simp add: daysInMonth_def)

declare setDate.simps [simp del]

section \<open>Projector (App.tsx, \<open>dailyProjection\<close>)\<close>

text \<open>
  What the projection takes from the platform is a parameter: \<open>startDate\<close> is the local
  calendar date of \<open>new Date()\<close>; \<open>formatCurrency\<close> is the \<open>Intl.NumberFormat\<close> call;
  \<open>dateFormatter\<close> is \<open>Intl.DateTimeFormat.format\<close>; \<open>toISODate d\<close> is
  \<open>toISOString().split('T')[0]\<close> of the instant whose local calendar date is \<open>d\<close> at the
  start instant's time of day, that is its UTC calendar date as a string, which the time
  zone may place a day away from \<open>d\<close>.
\<close>

record Platform =
  startDate :: LocalDate
  formatCurrency :: "real \<Rightarrow> string"
  dateFormatter :: "LocalDate \<Rightarrow> string"
  toISODate :: "LocalDate \<Rightarrow> string"

record ProjectionDay =
  day :: nat
  row_date :: string
  earned :: real
  income :: real
  events :: "string list"
  total :: real

text \<open>
  \<^verbatim>\<open>
  const dailyRate = summary.weightedAverageYield > 0
    ? Math.pow(1 + summary.weightedAverageYield / 100, 1 / 365) - 1
    : 0;
  \<close>
  Under the guard the base exceeds 1, where \<open>Math.pow\<close> is the real power.
\<close>

definition dailyRate :: "real \<Rightarrow> real" where
  "dailyRate avgYield =
     (if avgYield > 0 then (1 + avgYield / 100) powr (1 / 365) - 1 else 0)"

text \<open>
  The body of the \<open>for\<close> loop for index \<open>i\<close>: it returns the record pushed onto
  \<open>results\<close> and the updated \<open>currentCapital\<close>. \<open>forEach\<close> over the extra incomes
  updates \<open>incomeToday\<close> and \<open>events\<close> in collection order, a left fold over the pair.
\<close>

definition projectDay ::
  "Platform \<Rightarrow> real \<Rightarrow> AdditionalIncome list \<Rightarrow> real \<Rightarrow> nat \<Rightarrow> real \<Rightarrow> ProjectionDay \<times> real" where
  "projectDay P salary extraIncomes rate i currentCapital =
     (let currentDate = setDate (startDate P) (getDate (startDate P) + i + 1);
          dayOfMonth = getDate currentDate;
          monthDays = daysInMonth (getFullYear currentDate) (getMonth currentDate);
          (incomeToday, evs) =
            (if dayOfMonth = 15 \<or> dayOfMonth = monthDays
             then (0 + salary, [] @ [''Quincena: +'' @ formatCurrency P salary])
             else (0, []));
          isoDate = toISODate P currentDate;
          (incomeToday, evs) =
            foldl (\<lambda>(incomeToday, evs) extra.
                     if date extra = isoDate
                     then (incomeToday + extra_amount extra,
                           evs @ [(if description extra = [] then ''Ingreso Extra''
                                   else description extra)
                                  @ '': +'' @ formatCurrency P (extra_amount extra)])
                     else (incomeToday, evs))
                  (incomeToday, evs) extraIncomes;
          capital = currentCapital + incomeToday;
          dailyEarned = capital * rate;
          capital = capital + dailyEarned
      in (\<lparr> day = i + 1, row_date = dateFormatter P currentDate, earned = dailyEarned,
            income = incomeToday, events = evs, total = capital \<rparr>, capital))"

text \<open>
  \<^verbatim>\<open>for (let i = 0; i < projectionDays; i++) { ...; results.push({...}); }\<close>
  with the loop variables \<open>i\<close>, \<open>currentCapital\<close> and \<open>results\<close> as arguments.
\<close>

function projectionLoop ::
  "Platform \<Rightarrow> real \<Rightarrow> AdditionalIncome list \<Rightarrow> real \<Rightarrow> nat \<Rightarrow> nat \<Rightarrow> real
     \<Rightarrow> ProjectionDay list \<Rightarrow> ProjectionDay list" where
  "projectionLoop P salary extraIncomes rate projectionDays i currentCapital results =
     (if i < projectionDays
      then (let (row, capital) = projectDay P salary extraIncomes rate i currentCapital
            in projectionLoop P salary extraIncomes rate projectionDays (i + 1) capital
                 (results @ [row]))
      else results)"
  by pat_completeness auto
termination
  by (relation "measure (\<lambda>(P, salary, extraIncomes, rate, n, i, c, rs). n - i)") auto

declare projectionLoop.simps [simp del]

text \<open>
  The horizon \<open>projectionDays\<close> is a count of days chosen from the menu (15, 30, 90, 180,
  365), hence a natural number.
\<close>

definition dailyProjection ::
  "Platform \<Rightarrow> PortfolioSummary \<Rightarrow> real \<Rightarrow> AdditionalIncome list \<Rightarrow> nat \<Rightarrow> ProjectionDay list" where
  "dailyProjection P s salary extraIncomes projectionDays =
     projectionLoop P salary extraIncomes (dailyRate (weightedAverageYield s)) projectionDays
       0 (totalAmount s) []"

section \<open>Names for the parts of one iteration\<close>

text \<open>
  The statements below speak about the local variables of the loop body; these
  definitions name them. \<open>currentDateAt P i\<close> is \<open>currentDate\<close> in iteration \<open>i\<close>,
  \<open>isPayday\<close> is the condition of the salary \<open>if\<close>, \<open>salaryLabel\<close> and \<open>extraLabel\<close>
  are the two template strings, and \<open>matchingExtras\<close> are the extra incomes that pass
  the test \<open>extra.date === isoDate\<close>, in collection order.
\<close>

definition currentDateAt :: "Platform \<Rightarrow> nat \<Rightarrow> LocalDate" where
  "currentDateAt P i = setDate (startDate P) (getDate (startDate P) + i + 1)"

definition isPayday :: "LocalDate \<Rightarrow> bool" where
  "isPayday d = (getDate d = 15 \<or> getDate d = daysInMonth (getFullYear d) (getMonth d))"

definition salaryLabel :: "Platform \<Rightarrow> real \<Rightarrow> string" where
  "salaryLabel P salary = ''Quincena: +'' @ formatCurrency P salary"

definition extraLabel :: "Platform \<Rightarrow> AdditionalIncome \<Rightarrow> string" where
  "extraLabel P extra =
     (if description extra = [] then ''Ingreso Extra'' else description extra)
     @ '': +'' @ formatCurrency P (extra_amount extra)"

definition matchingExtras ::
  "Platform \<Rightarrow> AdditionalIncome list \<Rightarrow> nat \<Rightarrow> AdditionalIncome list" where
  "matchingExtras P extraIncomes i =
     filter (\<lambda>extra. date extra = toISODate P (currentDateAt P i)) extraIncomes"

text \<open>
  The loop unrolled: \<open>capitalAfter \<dots> k\<close> is \<open>currentCapital\<close> after \<open>k\<close> iterations and
  \<open>rowAt \<dots> k\<close> is the record pushed by iteration \<open>k\<close>. Both run the loop body itself.
\<close>

primrec capitalAfter ::
  "Platform \<Rightarrow> real \<Rightarrow> AdditionalIncome list \<Rightarrow> real \<Rightarrow> real \<Rightarrow> nat \<Rightarrow> real" where
  "capitalAfter P salary extraIncomes rate c0 0 = c0"
| "capitalAfter P salary extraIncomes rate c0 (Suc k) =
     snd (projectDay P salary extraIncomes rate k (capitalAfter P salary extraIncomes rate c0 k))"

definition rowAt ::
  "Platform \<Rightarrow> real \<Rightarrow> AdditionalIncome list \<Rightarrow> real \<Rightarrow> real \<Rightarrow> nat \<Rightarrow> ProjectionDay" where
  "rowAt P salary extraIncomes rate c0 k =
     fst (projectDay P salary extraIncomes rate k (capitalAfter P salary extraIncomes rate c0 k))"

section \<open>A sample platform\<close>

text \<open>
  A platform whose clock runs in UTC, so that the ISO date of an instant is its local
  calendar date written \<open>YYYY-MM-DD\<close>, and whose currency format is a peso sign before
  the whole pesos. It serves to evaluate the projection on concrete inputs.
\<close>

definition digitChar :: "nat \<Rightarrow> char" where
  "digitChar n = ''0123456789'' ! (n mod 10)"

fun decimal :: "nat \<Rightarrow> string" where
  "decimal n = (if n < 10 then [digitChar n] else decimal (n div 10) @ [digitChar n])"

declare decimal.simps [simp del]

definition pad2 :: "nat \<Rightarrow> string" where
  "pad2 n = [digitChar (n div 10), digitChar n]"

definition isoDateString :: "LocalDate \<Rightarrow> string" where
  "isoDateString d =
     pad2 (nat (getFullYear d) div 100) @ pad2 (nat (getFullYear d)) @ ''-'' @
     pad2 (getMonth d + 1) @ ''-'' @ pad2 (getDate d)"

definition utcPlatform :: "LocalDate \<Rightarrow> Platform" where
  "utcPlatform start =
     \<lparr> startDate = start,
       formatCurrency = (\<lambda>v. ''$'' @ decimal (nat \<lfloor>v\<rfloor>)),
       dateFormatter = isoDateString,
       toISODate = isoDateString \<rparr>"

text \<open>Sample inputs used to evaluate the definitions.\<close>

definition twoAccounts :: "Investment list" where
  "twoAccounts =
     [\<lparr> inv_id = ''1'', name = ''A'', amount = 1000, annualYield = 12 \<rparr>,
      \<lparr> inv_id = ''2'', name = ''B'', amount = 500, annualYield = 6 \<rparr>]"

definition idleAccount :: Investment where
  "idleAccount = \<lparr> inv_id = ''1'', name = ''Idle'', amount = 0, annualYield = 5 \<rparr>"

definition debtAccounts :: "Investment list" where
  "debtAccounts =
     [\<lparr> inv_id = ''1'', name = ''Loan'', amount = - 300, annualYield = 20 \<rparr>,
      \<lparr> inv_id = ''2'', name = ''Cash'', amount = 100, annualYield = 4 \<rparr>]"

definition oneAccount :: "Investment list" where
  "oneAccount = [\<lparr> inv_id = ''1'', name = ''A'', amount = 1000, annualYield = 12 \<rparr>]"

definition lossAccount :: Investment where
  "lossAccount = \<lparr> inv_id = ''1'', name = ''Loss'', amount = 100, annualYield = - 50 \<rparr>"

definition feb26 :: LocalDate where
  "feb26 = \<lparr> getFullYear = 2026, getMonth = 1, getDate = 26 \<rparr>"

definition sampleExtras :: "AdditionalIncome list" where
  "sampleExtras =
     [\<lparr> extra_id = ''a'', description = ''Bono'', extra_amount = 500, date = ''2026-02-28'' \<rparr>,
      \<lparr> extra_id = ''b'', description = [], extra_amount = 200, date = ''2026-03-01'' \<rparr>,
      \<lparr> extra_id = ''c'', description = ''Venta'', extra_amount = 50, date = ''2026-02-28'' \<rparr>]"

section \<open>Properties of the Aggregator\<close>

lemma foldl_plus_sum_list:
  "foldl (\<lambda>s x. s + f x) z xs = (z::real) + sum_list (map f xs)"
  by (induction xs arbitrary: z) simp_all

lemma summary_total: "totalAmount (summary accs) = sum_list (map amount accs)"
  by (simp add: summary_def Let_def foldl_plus_sum_list)

lemma summary_yield:
  "weightedAverageYield (summary accs) =
     (if sum_list (map amount accs) > 0
      then sum_list (map (\<lambda>a. amount a * annualYield a) accs) / sum_list (map amount accs)
      else 0)"
  by (simp add: summary_def Let_def foldl_plus_sum_list)

lemma summary_monthly:
  "monthlyIncome (summary accs) =
     totalAmount (summary accs) * (weightedAverageYield (summary accs) / 100) / 12"
  by (simp add: summary_def Let_def)

text \<open>
  C1. For every list of accounts, empty or not, the summary's \<open>totalAmount\<close> is the sum
  of the amounts, \<open>weightedAverageYield\<close> is the sum of amount times yield divided by
  \<open>totalAmount\<close> when \<open>totalAmount\<close> is positive and exactly 0 when it is 0, and
  \<open>monthlyIncome\<close> is \<open>totalAmount * (weightedAverageYield / 100) / 12\<close>. The function
  has no error branch: the only division is guarded.
\<close>

theorem summary_invariant:
  "totalAmount (summary accs) = sum_list (map amount accs) \<and>
   (totalAmount (summary accs) > 0 \<longrightarrow>
      weightedAverageYield (summary accs) =
        sum_list (map (\<lambda>a. amount a * annualYield a) accs) / totalAmount (summary accs)) \<and>
   (totalAmount (summary accs) = 0 \<longrightarrow> weightedAverageYield (summary accs) = 0) \<and>
   monthlyIncome (summary accs) =
     totalAmount (summary accs) * (weightedAverageYield (summary accs) / 100) / 12 \<and>
   totalAmount (summary []) = 0 \<and> weightedAverageYield (summary []) = 0 \<and>
   monthlyIncome (summary []) = 0"
proof -
  have "summary [] = \<lparr> totalAmount = 0, weightedAverageYield = 0, monthlyIncome = 0 \<rparr>"
    by (simp add: summary_def)
  then show ?thesis
    using summary_monthly [of accs] by (simp add: summary_total summary_yield)
qed

theorem summary_invariant_witness:
  "totalAmount (summary twoAccounts) = 1500 \<and>
   weightedAverageYield (summary twoAccounts) = 10 \<and>
   monthlyIncome (summary twoAccounts) = 25 / 2 \<and>
   totalAmount (summary [idleAccount]) = 0 \<and>
   weightedAverageYield (summary [idleAccount]) = 0"
  using summary_invariant [of twoAccounts] summary_invariant [of "[idleAccount]"]
  by (simp add: twoAccounts_def idleAccount_def summary_def)

text \<open>
  C9. The guard is \<open>totalAmount > 0\<close>: whenever the total is zero or negative the
  average yield is 0, so the quotient is never taken over a non-positive total and a
  negative total never yields a sign-flipped average.
\<close>

theorem summary_nonpositive_total:
  "totalAmount (summary accs) \<le> 0 \<Longrightarrow>
     weightedAverageYield (summary accs) = 0 \<and> monthlyIncome (summary accs) = 0"
  using summary_monthly [of accs] by (simp add: summary_total summary_yield)

theorem summary_nonpositive_total_witness:
  "totalAmount (summary debtAccounts) = - 200 \<and>
   sum_list (map (\<lambda>a. amount a * annualYield a) debtAccounts) / totalAmount (summary debtAccounts)
     = 28 \<and>
   weightedAverageYield (summary debtAccounts) = 0 \<and>
   monthlyIncome (summary debtAccounts) = 0"
proof -
  have t: "totalAmount (summary debtAccounts) = - 200"
    by (simp add: summary_total debtAccounts_def)
  have q: "sum_list (map (\<lambda>a. amount a * annualYield a) debtAccounts) = - 5600"
    by (simp add: debtAccounts_def)
  from t have "totalAmount (summary debtAccounts) \<le> 0" by simp
  from summary_nonpositive_total [OF this] t q show ?thesis by simp
qed






section \<open>The loop, iteration by iteration\<close>

lemma foldl_extras:
  "foldl (\<lambda>(inc, evs) e. if p e then (inc + f e, evs @ [g e]) else (inc, evs)) (i0, e0) xs
     = ((i0::real) + sum_list (map f (filter p xs)), e0 @ map g (filter p xs))"
  by (induction xs arbitrary: i0 e0) simp_all

lemma projectDay_eq:
  "projectDay P salary extraIncomes rate i c =
     (let inc = (if isPayday (currentDateAt P i) then salary else 0)
                + sum_list (map extra_amount (matchingExtras P extraIncomes i));
          evs = (if isPayday (currentDateAt P i) then [salaryLabel P salary] else [])
                @ map (extraLabel P) (matchingExtras P extraIncomes i)
      in (\<lparr> day = i + 1, row_date = dateFormatter P (currentDateAt P i),
            earned = (c + inc) * rate, income = inc, events = evs,
            total = c + inc + (c + inc) * rate \<rparr>,
          c + inc + (c + inc) * rate))"
  unfolding projectDay_def Let_def foldl_extras currentDateAt_def [symmetric]
  by (simp add: isPayday_def salaryLabel_def matchingExtras_def extraLabel_def [abs_def] foldl_extras)

lemma loop_rows:
  "c = capitalAfter P salary extraIncomes rate c0 i \<Longrightarrow>
   projectionLoop P salary extraIncomes rate n i c rs =
     rs @ map (rowAt P salary extraIncomes rate c0) [i..<n]"
proof (induction P salary extraIncomes rate n i c rs rule: projectionLoop.induct)
  case (1 P salary extraIncomes rate n i c rs)
  show ?case
  proof (cases "i < n")
    case True
    obtain row c' where pd: "projectDay P salary extraIncomes rate i c = (row, c')"
      by (cases "projectDay P salary extraIncomes rate i c")
    have row: "row = rowAt P salary extraIncomes rate c0 i"
      using pd "1.prems" by (simp add: rowAt_def)
    have c': "c' = capitalAfter P salary extraIncomes rate c0 (i + 1)"
      using pd "1.prems" by simp
    have "projectionLoop P salary extraIncomes rate n (i + 1) c' (rs @ [row]) =
            (rs @ [row]) @ map (rowAt P salary extraIncomes rate c0) [i + 1..<n]"
      using "1.IH" [OF True pd [symmetric] refl c'] .
    then show ?thesis
      using True pd row by (subst projectionLoop.simps) (simp add: upt_conv_Cons)
  next
    case False
    then show ?thesis by (subst projectionLoop.simps) simp
  qed
qed

lemma dailyProjection_rows:
  "dailyProjection P s salary extraIncomes n =
     map (rowAt P salary extraIncomes (dailyRate (weightedAverageYield s)) (totalAmount s)) [0..<n]"
  by (simp add: dailyProjection_def loop_rows)

lemma row_fields:
  "day (rowAt P salary ex rate c0 k) = k + 1"
  "income (rowAt P salary ex rate c0 k) =
     (if isPayday (currentDateAt P k) then salary else 0)
     + sum_list (map extra_amount (matchingExtras P ex k))"
  "events (rowAt P salary ex rate c0 k) =
     (if isPayday (currentDateAt P k) then [salaryLabel P salary] else [])
     @ map (extraLabel P) (matchingExtras P ex k)"
  "earned (rowAt P salary ex rate c0 k) =
     (capitalAfter P salary ex rate c0 k + income (rowAt P salary ex rate c0 k)) * rate"
  "total (rowAt P salary ex rate c0 k) =
     capitalAfter P salary ex rate c0 k + income (rowAt P salary ex rate c0 k)
     + earned (rowAt P salary ex rate c0 k)"
  "total (rowAt P salary ex rate c0 k) = capitalAfter P salary ex rate c0 (Suc k)"
  by (simp_all add: rowAt_def projectDay_eq Let_def)

lemma projection_nth:
  "i < n \<Longrightarrow> dailyProjection P s salary ex n ! i =
     rowAt P salary ex (dailyRate (weightedAverageYield s)) (totalAmount s) i"
  by (simp add: dailyProjection_rows)

lemma projection_length: "length (dailyProjection P s salary ex n) = n"
  by (simp add: dailyProjection_rows)

lemma previous_total:
  "i < n \<Longrightarrow>
   (if i = 0 then totalAmount s else total (dailyProjection P s salary ex n ! (i - 1))) =
     capitalAfter P salary ex (dailyRate (weightedAverageYield s)) (totalAmount s) i"
  by (cases i) (simp_all add: projection_nth row_fields(6))

lemma no_income_capital:
  "capitalAfter P 0 [] rate c0 k = c0 * (1 + rate) ^ k"
  by (induction k) (simp_all add: projectDay_eq matchingExtras_def algebra_simps)

section \<open>Evaluating the sample inputs\<close>

lemma utcPlatform_fields:
  "startDate (utcPlatform d) = d"
  "toISODate (utcPlatform d) = isoDateString"
  "formatCurrency (utcPlatform d) v = ''$'' @ decimal (nat \<lfloor>v\<rfloor>)"
  by (simp_all add: utcPlatform_def)

lemmas calendar_simps = setDate.simps daysInMonth_def isLeapYear_def firstOfNextMonth_def
  currentDateAt_def utcPlatform_fields feb26_def

lemmas format_simps = isoDateString_def pad2_def digitChar_def decimal.simps

lemma feb26_dates:
  "currentDateAt (utcPlatform feb26) 0 = \<lparr> getFullYear = 2026, getMonth = 1, getDate = 27 \<rparr>"
  "currentDateAt (utcPlatform feb26) (Suc 0) = \<lparr> getFullYear = 2026, getMonth = 1, getDate = 28 \<rparr>"
  "currentDateAt (utcPlatform feb26) 2 = \<lparr> getFullYear = 2026, getMonth = 2, getDate = 1 \<rparr>"
  by (simp_all add: calendar_simps)

lemma feb26_paydays:
  "\<not> isPayday (currentDateAt (utcPlatform feb26) 0)"
  "isPayday (currentDateAt (utcPlatform feb26) (Suc 0))"
  "\<not> isPayday (currentDateAt (utcPlatform feb26) 2)"
  by (simp_all add: feb26_dates isPayday_def daysInMonth_def isLeapYear_def)

lemma feb26_matching:
  "matchingExtras (utcPlatform feb26) sampleExtras 0 = []"
  "matchingExtras (utcPlatform feb26) sampleExtras (Suc 0) =
     [\<lparr> extra_id = ''a'', description = ''Bono'', extra_amount = 500, date = ''2026-02-28'' \<rparr>,
      \<lparr> extra_id = ''c'', description = ''Venta'', extra_amount = 50, date = ''2026-02-28'' \<rparr>]"
  "matchingExtras (utcPlatform feb26) sampleExtras 2 =
     [\<lparr> extra_id = ''b'', description = [], extra_amount = 200, date = ''2026-03-01'' \<rparr>]"
  by (simp_all add: matchingExtras_def feb26_dates utcPlatform_fields format_simps sampleExtras_def)

lemma sample_amounts:
  "decimal 1000 = ''1000''" "decimal 500 = ''500''"
  "decimal 50 = ''50''" "decimal 200 = ''200''"
  "decimal 0 = ''0''"
  by (simp_all add: decimal.simps digitChar_def)

lemma oneAccount_summary:
  "totalAmount (summary oneAccount) = 1000" "weightedAverageYield (summary oneAccount) = 12"
  by (simp_all add: summary_def oneAccount_def)

section \<open>The daily rate\<close>

lemma dailyRate_compound:
  assumes "0 \<le> a"
  shows "(1 + dailyRate a) ^ 365 = 1 + a / 100"
proof -
  have pos: "0 < 1 + a / 100" using assms by (simp add: add_pos_nonneg)
  have "(1 + dailyRate a) = (1 + a / 100) powr (1 / 365)"
    using assms by (simp add: dailyRate_def)
  moreover have "((1 + a / 100) powr (1 / 365)) ^ 365 = (1 + a / 100) powr (1 / 365 * real 365)"
    using pos by (simp only: powr_powr [symmetric] powr_realpow powr_gt_zero)
  ultimately show ?thesis using pos by simp
qed

lemma square_upper: "0 \<le> a \<Longrightarrow> a \<le> u \<Longrightarrow> u * u \<le> v \<Longrightarrow> a * a \<le> (v::real)"
  by (meson mult_mono order_trans)

lemma square_lower: "0 \<le> l \<Longrightarrow> l \<le> a \<Longrightarrow> v \<le> l * l \<Longrightarrow> (v::real) \<le> a * a"
  by (meson mult_mono order_trans)

lemma prod_upper:
  "0 \<le> a \<Longrightarrow> a \<le> u \<Longrightarrow> 0 \<le> b \<Longrightarrow> b \<le> v \<Longrightarrow> a * b \<le> u * (v::real)"
  by (meson mult_mono order_trans)

lemma power365_split: "(x::real) ^ 365 = x ^ 256 * x ^ 64 * x ^ 32 * x ^ 8 * x ^ 4 * x"
proof -
  have "x ^ 256 * x ^ 64 * x ^ 32 * x ^ 8 * x ^ 4 * x = x ^ (256 + 64 + 32 + 8 + 4 + 1)"
    by (simp only: power_add power_one_right)
  then show ?thesis by simp
qed

lemma power_double: "(x::real) ^ (2 * k) = x ^ k * x ^ k"
  by (simp add: power_add mult_2)

lemma power365_upper:
  fixes x :: real
  assumes x: "0 \<le> x"
    and s: "x * x \<le> u2" "u2 * u2 \<le> u4" "u4 * u4 \<le> u8" "u8 * u8 \<le> u16"
      "u16 * u16 \<le> u32" "u32 * u32 \<le> u64" "u64 * u64 \<le> u128" "u128 * u128 \<le> u256"
  shows "x ^ 365 \<le> u256 * u64 * u32 * u8 * u4 * x"
proof -
  have p2: "x ^ 2 \<le> u2" using s(1) by (simp add: power2_eq_square)
  have p4: "x ^ 4 \<le> u4"
    using square_upper [OF _ p2 s(2)] power_double [of x 2] by simp
  have p8: "x ^ 8 \<le> u8"
    using square_upper [OF _ p4 s(3)] power_double [of x 4] by simp
  have p16: "x ^ 16 \<le> u16"
    using square_upper [OF _ p8 s(4)] power_double [of x 8] by simp
  have p32: "x ^ 32 \<le> u32"
    using square_upper [OF _ p16 s(5)] power_double [of x 16] by simp
  have p64: "x ^ 64 \<le> u64"
    using square_upper [OF _ p32 s(6)] power_double [of x 32] by simp
  have p128: "x ^ 128 \<le> u128"
    using square_upper [OF _ p64 s(7)] power_double [of x 64] by simp
  have p256: "x ^ 256 \<le> u256"
    using square_upper [OF _ p128 s(8)] power_double [of x 128] by simp
  have n: "0 \<le> x ^ k" for k using x by simp
  have q1: "x ^ 256 * x ^ 64 \<le> u256 * u64"
    by (rule prod_upper [OF n p256 n p64])
  have q2: "x ^ 256 * x ^ 64 * x ^ 32 \<le> u256 * u64 * u32"
    by (rule prod_upper [OF mult_nonneg_nonneg [OF n n] q1 n p32])
  have q3: "x ^ 256 * x ^ 64 * x ^ 32 * x ^ 8 \<le> u256 * u64 * u32 * u8"
    by (rule prod_upper [OF mult_nonneg_nonneg [OF mult_nonneg_nonneg [OF n n] n] q2 n p8])
  have q4: "x ^ 256 * x ^ 64 * x ^ 32 * x ^ 8 * x ^ 4 \<le> u256 * u64 * u32 * u8 * u4"
    by (rule prod_upper
        [OF mult_nonneg_nonneg [OF mult_nonneg_nonneg [OF mult_nonneg_nonneg [OF n n] n] n]
          q3 n p4])
  have "x ^ 256 * x ^ 64 * x ^ 32 * x ^ 8 * x ^ 4 * x \<le> u256 * u64 * u32 * u8 * u4 * x"
    using q4 x by (rule mult_right_mono)
  then show ?thesis by (simp only: power365_split)
qed


lemma power365_lower:
  fixes x :: real
  assumes x: "0 \<le> x"
    and l: "0 \<le> l2" "0 \<le> l4" "0 \<le> l8" "0 \<le> l16" "0 \<le> l32" "0 \<le> l64" "0 \<le> l128"
      "0 \<le> l256"
    and s: "l2 \<le> x * x" "l4 \<le> l2 * l2" "l8 \<le> l4 * l4" "l16 \<le> l8 * l8"
      "l32 \<le> l16 * l16" "l64 \<le> l32 * l32" "l128 \<le> l64 * l64" "l256 \<le> l128 * l128"
  shows "l256 * l64 * l32 * l8 * l4 * x \<le> x ^ 365"
proof -
  have p2: "l2 \<le> x ^ 2" using s(1) by (simp add: power2_eq_square)
  have p4: "l4 \<le> x ^ 4"
    using square_lower [OF l(1) p2 s(2)] power_double [of x 2] by simp
  have p8: "l8 \<le> x ^ 8"
    using square_lower [OF l(2) p4 s(3)] power_double [of x 4] by simp
  have p16: "l16 \<le> x ^ 16"
    using square_lower [OF l(3) p8 s(4)] power_double [of x 8] by simp
  have p32: "l32 \<le> x ^ 32"
    using square_lower [OF l(4) p16 s(5)] power_double [of x 16] by simp
  have p64: "l64 \<le> x ^ 64"
    using square_lower [OF l(5) p32 s(6)] power_double [of x 32] by simp
  have p128: "l128 \<le> x ^ 128"
    using square_lower [OF l(6) p64 s(7)] power_double [of x 64] by simp
  have p256: "l256 \<le> x ^ 256"
    using square_lower [OF l(7) p128 s(8)] power_double [of x 128] by simp
  have q1: "l256 * l64 \<le> x ^ 256 * x ^ 64"
    by (rule prod_upper [OF l(8) p256 l(6) p64])
  have q2: "l256 * l64 * l32 \<le> x ^ 256 * x ^ 64 * x ^ 32"
    by (rule prod_upper [OF mult_nonneg_nonneg [OF l(8) l(6)] q1 l(5) p32])
  have q3: "l256 * l64 * l32 * l8 \<le> x ^ 256 * x ^ 64 * x ^ 32 * x ^ 8"
    by (rule prod_upper
        [OF mult_nonneg_nonneg [OF mult_nonneg_nonneg [OF l(8) l(6)] l(5)] q2 l(3) p8])
  have q4: "l256 * l64 * l32 * l8 * l4 \<le> x ^ 256 * x ^ 64 * x ^ 32 * x ^ 8 * x ^ 4"
    by (rule prod_upper
        [OF mult_nonneg_nonneg
              [OF mult_nonneg_nonneg [OF mult_nonneg_nonneg [OF l(8) l(6)] l(5)] l(3)]
          q3 l(2) p4])
  have "l256 * l64 * l32 * l8 * l4 * x \<le> x ^ 256 * x ^ 64 * x ^ 32 * x ^ 8 * x ^ 4 * x"
    using q4 x by (rule mult_right_mono)
  then show ?thesis by (simp only: power365_split)
qed

lemma rate_power_upper: "(1.0003104 :: real) ^ 365 < 1.12"
proof -
  have "(1.0003104 :: real) ^ 365 \<le>
          1.082691499565 * 1.020061089877 * 1.009980737379 * 1.002485899429 * 1.001242178211
          * 1.0003104"
    by (rule power365_upper [where ?u2.0 = "1.000620896349" and ?u16.0 = "1.004977978554"
          and ?u128.0 = "1.040524627082"]) simp_all
  also have "\<dots> < 1.12" by simp
  finally show ?thesis .
qed

lemma rate_power_lower: "(1.12 :: real) < 1.0003106 ^ 365"
proof -
  have "(1.12 :: real) <
          1.08274691728 * 1.02007414262 * 1.009987199236 * 1.002487502902 * 1.001242978953
          * 1.0003106"
    by simp
  also have "\<dots> \<le> 1.0003106 ^ 365"
    by (rule power365_lower [where ?l2.0 = "1.000621296472" and ?l16.0 = "1.004981193474"
          and ?l128.0 = "1.040551256441"]) simp_all
  finally show ?thesis .
qed

lemma root_of_power: "0 \<le> x \<Longrightarrow> (x ^ 365) powr (1 / 365) = x" for x :: real
proof -
  assume x: "0 \<le> x"
  have e: "x powr (of_nat 365) = x ^ 365"
    by (rule powr_realpow') (use x in simp_all)
  have "(x ^ 365) powr (1 / 365) = (x powr (of_nat 365)) powr (1 / 365)"
    by (simp only: e)
  also have "\<dots> = x powr (of_nat 365 * (1 / 365))" by (rule powr_powr)
  also have "\<dots> = x powr 1" by simp
  also have "\<dots> = x" using x by simp
  finally show ?thesis .
qed

lemma root_lower: "0 \<le> x \<Longrightarrow> x ^ 365 < y \<Longrightarrow> x < y powr (1 / 365)" for x y :: real
proof -
  assume x: "0 \<le> x" and lt: "x ^ 365 < y"
  have "(x ^ 365) powr (1 / 365) < y powr (1 / 365)"
    using lt x by (intro powr_less_mono2) simp_all
  then show ?thesis by (simp only: root_of_power [OF x])
qed

lemma root_upper: "0 \<le> y \<Longrightarrow> 0 \<le> x \<Longrightarrow> y < x ^ 365 \<Longrightarrow> y powr (1 / 365) < x" for x y :: real
proof -
  assume y: "0 \<le> y" and x: "0 \<le> x" and lt: "y < x ^ 365"
  have "y powr (1 / 365) < (x ^ 365) powr (1 / 365)"
    using lt y by (intro powr_less_mono2) simp_all
  then show ?thesis by (simp only: root_of_power [OF x])
qed

lemma dailyRate_12_bounds: "0.0003104 < dailyRate 12 \<and> dailyRate 12 < 0.0003106"
proof -
  have "(1.0003104 :: real) < 1.12 powr (1 / 365)"
    by (rule root_lower [OF _ rate_power_upper]) simp
  moreover have "(1.12 :: real) powr (1 / 365) < 1.0003106"
    by (rule root_upper [OF _ _ rate_power_lower]) simp_all
  ultimately show ?thesis by (simp add: dailyRate_def)
qed

lemma compound_exceeds_simple:
  fixes y :: real
  assumes "0 < y"
  shows "1 + 365 * y < (1 + y) ^ 365"
proof -
  have b: "1 + real 363 * y \<le> (1 + y) ^ 363"
    using assms by (intro Bernoulli_inequality) simp
  have "1 + 365 * y < (1 + 2 * y + y * y) * (1 + 363 * y)"
  proof -
    have "0 < y * y" "0 < y * y * y" using assms by simp_all
    then show ?thesis by (simp add: algebra_simps)
  qed
  also have "\<dots> = (1 + y) ^ 2 * (1 + 363 * y)"
    by (simp add: power2_eq_square algebra_simps)
  also have "\<dots> \<le> (1 + y) ^ 2 * (1 + y) ^ 363"
    using b by (intro mult_left_mono) simp_all
  also have "\<dots> = (1 + y) ^ 365"
    by (simp add: power_add [symmetric])
  finally show ?thesis .
qed

lemma dailyRate_below_simple:
  assumes "0 < a"
  shows "dailyRate a < a / 100 / 365"
proof -
  have y: "0 < a / 100 / 365" using assms by simp
  have "1 + a / 100 < (1 + a / 100 / 365) ^ 365"
    using compound_exceeds_simple [OF y] by simp
  then have "(1 + a / 100) powr (1 / 365) < 1 + a / 100 / 365"
    using assms by (intro root_upper) simp_all
  then show ?thesis using assms by (simp add: dailyRate_def)
qed

text \<open>
  C2, as stated: for every annual yield the daily rate is
  \<open>(1 + annualYieldPercent / 100) ^ (1 / 365) - 1\<close>. It fails for a negative yield,
  which the Aggregator can produce (one account of amount 100 and yield -50 has average
  yield -50): the guard \<open>weightedAverageYield > 0\<close> returns 0 there, while the formula
  gives a negative rate.
\<close>

theorem dailyRate_counterexample:
  "weightedAverageYield (summary [lossAccount]) = - 50 \<and>
   dailyRate (- 50) \<noteq> (1 + (- 50) / 100) powr (1 / 365) - 1"
proof -
  have "(1 / 2 :: real) powr (1 / 365) \<noteq> 1" by simp
  then show ?thesis by (simp add: dailyRate_def summary_yield lossAccount_def)
qed

text \<open>
  C2, amended: for every annual yield that is not negative the daily rate is
  \<open>(1 + annualYieldPercent / 100) ^ (1 / 365) - 1\<close>, so that 365 daily periods
  reproduce the annual yield, and it is 0 when the yield is 0; for a positive yield it
  is strictly below the yield divided by 365; for every yield that is not positive the
  daily rate is 0.
\<close>

theorem dailyRate_formula:
  "(0 \<le> a \<longrightarrow> dailyRate a = (1 + a / 100) powr (1 / 365) - 1 \<and>
                 (1 + dailyRate a) ^ 365 = 1 + a / 100) \<and>
   (0 < a \<longrightarrow> dailyRate a < a / 100 / 365) \<and>
   (a \<le> 0 \<longrightarrow> dailyRate a = 0)"
  using dailyRate_compound [of a] dailyRate_below_simple [of a] by (simp add: dailyRate_def)

theorem dailyRate_formula_witness:
  "dailyRate 12 = (1 + 12 / 100) powr (1 / 365) - 1 \<and>
   (1 + dailyRate 12) ^ 365 = 1 + 12 / 100 \<and>
   dailyRate 12 < 12 / 100 / 365 \<and>
   dailyRate 0 = 0 \<and> dailyRate (- 50) = 0"
proof -
  have "(0::real) \<le> 12" "(0::real) < 12" "(0::real) \<le> 0" "(- 50::real) \<le> 0" by simp_all
  with dailyRate_formula [of 12] dailyRate_formula [of 0] dailyRate_formula [of "- 50"]
  show ?thesis by blast
qed

section \<open>Properties of the Projector\<close>

text \<open>
  C3. On every day of the projection the day's injected income, the salary if the day
  is a payday plus the extra incomes matching the day, is added to the running capital
  before interest: \<open>earned = (previous total + income) * dailyRate\<close> and
  \<open>total = previous total + income + earned\<close>, where the previous total of the first
  day is the starting capital \<open>totalAmount\<close>.
\<close>

theorem injection_before_interest:
  assumes "i < n"
  shows
  "(let rows = dailyProjection P s salary extraIncomes n;
        prev = (if i = 0 then totalAmount s else total (rows ! (i - 1)));
        row = rows ! i
    in income row = (if isPayday (currentDateAt P i) then salary else 0)
                    + sum_list (map extra_amount (matchingExtras P extraIncomes i)) \<and>
       earned row = (prev + income row) * dailyRate (weightedAverageYield s) \<and>
       total row = prev + income row + earned row)"
  unfolding Let_def previous_total [OF assms]
  by (simp add: projection_nth [OF assms] row_fields(2,4,5))

theorem injection_before_interest_witness:
  "(let rows = dailyProjection (utcPlatform feb26) (summary oneAccount) 1000 sampleExtras 3
    in income (rows ! 1) = 1550 \<and>
       earned (rows ! 1) = (total (rows ! 0) + 1550) * dailyRate 12 \<and>
       total (rows ! 1) = total (rows ! 0) + 1550 + earned (rows ! 1))"
  using injection_before_interest
    [of 1 3 "utcPlatform feb26" "summary oneAccount" 1000 sampleExtras]
  by (simp add: Let_def feb26_paydays feb26_matching oneAccount_summary)





text \<open>
  C6. For every horizon the projection is a finite list of exactly \<open>projectionDays\<close>
  records whose day indices are 1, 2, \<dots>, \<open>projectionDays\<close> in this order; for the
  horizon 0 it is the empty list.
\<close>

theorem projection_days:
  "length (dailyProjection P s salary extraIncomes n) = n \<and>
   map day (dailyProjection P s salary extraIncomes n) = [1..<Suc n] \<and>
   dailyProjection P s salary extraIncomes 0 = []"
proof -
  have "map day (dailyProjection P s salary extraIncomes n) = map Suc [0..<n]"
    by (simp add: dailyProjection_rows row_fields(1))
  then show ?thesis
    by (simp add: projection_length map_Suc_upt dailyProjection_rows)
qed

theorem projection_days_witness:
  "length (dailyProjection (utcPlatform feb26) (summary oneAccount) 1000 sampleExtras 3) = 3 \<and>
   map day (dailyProjection (utcPlatform feb26) (summary oneAccount) 1000 sampleExtras 3)
     = [1, 2, 3] \<and>
   dailyProjection (utcPlatform feb26) (summary oneAccount) 1000 sampleExtras 0 = []"
  using projection_days [of "utcPlatform feb26" "summary oneAccount" 1000 sampleExtras 3]
  by (simp add: upt_rec)

text \<open>
  C8. For the single account of amount 1000 and yield 12, the horizon 365, salary 0
  and no extra incomes, on any platform and start date: the daily rate is
  \<open>1.12 ^ (1 / 365) - 1\<close>, within 0.0000001 of 0.0003105, and the total of the last
  record, that of day 365, is exactly 1120.
\<close>

theorem one_year_scenario:
  "totalAmount (summary oneAccount) = 1000 \<and>
   weightedAverageYield (summary oneAccount) = 12 \<and>
   dailyRate (weightedAverageYield (summary oneAccount)) = 1.12 powr (1 / 365) - 1 \<and>
   \<bar>dailyRate (weightedAverageYield (summary oneAccount)) - 0.0003105\<bar> < 0.0000001 \<and>
   length (dailyProjection P (summary oneAccount) 0 [] 365) = 365 \<and>
   day (last (dailyProjection P (summary oneAccount) 0 [] 365)) = 365 \<and>
   total (last (dailyProjection P (summary oneAccount) 0 [] 365)) = 1120"
proof -
  let ?rows = "dailyProjection P (summary oneAccount) 0 [] 365"
  have len: "length ?rows = 365" by (rule projection_length)
  then have last: "last ?rows = ?rows ! 364"
    by (simp add: last_conv_nth flip: length_0_conv)
  have row: "?rows ! 364 = rowAt P 0 [] (dailyRate 12) 1000 364"
    by (simp add: projection_nth oneAccount_summary)
  have "total (rowAt P 0 [] (dailyRate 12) 1000 364) = capitalAfter P 0 [] (dailyRate 12) 1000 365"
    by (simp add: row_fields(6))
  also have "\<dots> = 1000 * (1 + dailyRate 12) ^ 365"
    by (rule no_income_capital)
  also have "\<dots> = 1120" by (simp add: dailyRate_compound)
  finally have tot: "total (last ?rows) = 1120" by (simp add: last row)
  have d: "day (last ?rows) = 365" by (simp add: last row row_fields(1))
  have r: "dailyRate 12 = 1.12 powr (1 / 365) - 1" by (simp add: dailyRate_def)
  have "\<bar>dailyRate 12 - 0.0003105\<bar> < 0.0000001"
    using dailyRate_12_bounds by linarith
  with len tot d r show ?thesis by (simp add: oneAccount_summary)
qed

theorem one_year_scenario_witness:
  "total (last (dailyProjection (utcPlatform feb26) (summary oneAccount) 0 [] 365)) = 1120 \<and>
   day (last (dailyProjection (utcPlatform feb26) (summary oneAccount) 0 [] 365)) = 365"
  using one_year_scenario [of "utcPlatform feb26"] by simp

text \<open>
  C10. On every projected day whose day of the month is 15 or the last day of its
  month the salary label is appended whatever the salary is: the events are not empty
  and start with the salary label, and with salary 0 and no matching extra income the
  record has income 0 next to the one event \<open>Quincena: +\<close> followed by the formatted 0.
\<close>

theorem salary_label_unconditional:
  "i < n \<Longrightarrow> isPayday (currentDateAt P i) \<Longrightarrow>
   (let row = dailyProjection P s salary extraIncomes n ! i
    in events row \<noteq> [] \<and> hd (events row) = ''Quincena: +'' @ formatCurrency P salary \<and>
       (salary = 0 \<and> matchingExtras P extraIncomes i = [] \<longrightarrow>
          income row = 0 \<and> events row = [''Quincena: +'' @ formatCurrency P 0]))"
  by (simp add: projection_nth row_fields(2,3) salaryLabel_def)

theorem salary_label_unconditional_witness:
  "isPayday (currentDateAt (utcPlatform feb26) 1) \<and>
   income (dailyProjection (utcPlatform feb26) (summary oneAccount) 0 [] 3 ! 1) = 0 \<and>
   events (dailyProjection (utcPlatform feb26) (summary oneAccount) 0 [] 3 ! 1)
     = [''Quincena: +$0'']"
  using salary_label_unconditional
    [of 1 3 "utcPlatform feb26" "summary oneAccount" 0 "[]"]
  by (simp add: Let_def feb26_paydays matchingExtras_def utcPlatform_fields sample_amounts)

end
